theory Spec2Isabelle
  imports Main
begin

section \<open>JavaScript values read from the configuration\<close>

text \<open>
  \<open>nconf.get\<close> and \<open>process.env\<close> hand the program untyped values. The three shapes the
  code distinguishes are modelled: \<open>undefined\<close>, a string, and an integral number
  (a number whose decimal rendering is a plain digit string).
\<close>

datatype jsval = JUndefined | JStr string | JNum int

text \<open>Truthiness as used by \<open>!val\<close>, \<open>a && b\<close>, \<open>if (timeout)\<close>.\<close>

fun truthy :: "jsval \<Rightarrow> bool" where
  "truthy JUndefined = False"
| "truthy (JStr s) = (s \<noteq> [])"
| "truthy (JNum n) = (n \<noteq> 0)"

text \<open>The position of a character in an alphabet, counted from \<open>i\<close>.\<close>

fun index_of :: "char \<Rightarrow> string \<Rightarrow> nat \<Rightarrow> nat option" where
  "index_of c [] i = None"
| "index_of c (d # ds) i = (if c = d then Some i else index_of c ds (Suc i))"

definition digit_char :: "nat \<Rightarrow> char" where
  "digit_char d = ''0123456789'' ! (d mod 10)"

fun nat_digits :: "nat \<Rightarrow> string" where
  "nat_digits n = (if n < 10 then [digit_char n] else nat_digits (n div 10) @ [digit_char (n mod 10)])"

declare nat_digits.simps [simp del]

text \<open>\<open>String(v)\<close>, also what string concatenation and template literals apply.\<close>

fun to_string :: "jsval \<Rightarrow> string" where
  "to_string JUndefined = ''undefined''"
| "to_string (JStr s) = s"
| "to_string (JNum n) = (if n < 0 then CHR ''-'' # nat_digits (nat (- n)) else nat_digits (nat n))"

text \<open>Strict equality \<open>a === b\<close>: no conversion between a number and a string.\<close>

definition strict_eq :: "jsval \<Rightarrow> jsval \<Rightarrow> bool" where
  "strict_eq a b = (a = b)"

subsection \<open>\<open>parseInt\<close> with no radix argument\<close>

definition is_ws :: "char \<Rightarrow> bool" where
  "is_ws c = (c = CHR '' '' \<or> c = CHR 0x09 \<or> c = CHR 0x0A \<or> c = CHR 0x0B \<or> c = CHR 0x0C \<or> c = CHR 0x0D)"

definition dec_val :: "char \<Rightarrow> nat option" where
  "dec_val c = index_of c ''0123456789'' 0"

definition hex_val :: "char \<Rightarrow> nat option" where
  "hex_val c =
     (case dec_val c of
        Some d \<Rightarrow> Some d
      | None \<Rightarrow>
          (case index_of c ''abcdef'' 10 of
             Some d \<Rightarrow> Some d
           | None \<Rightarrow> index_of c ''ABCDEF'' 10))"

definition digit_val :: "nat \<Rightarrow> char \<Rightarrow> nat option" where
  "digit_val radix c = (if radix = 16 then hex_val c else dec_val c)"

text \<open>The value of the longest prefix of digits; \<open>None\<close> when there is no digit.\<close>

fun parse_digits :: "nat \<Rightarrow> string \<Rightarrow> nat option \<Rightarrow> nat option" where
  "parse_digits radix [] acc = acc"
| "parse_digits radix (c # cs) acc =
     (case digit_val radix c of
        None \<Rightarrow> acc
      | Some d \<Rightarrow> parse_digits radix cs (Some ((case acc of None \<Rightarrow> 0 | Some a \<Rightarrow> a) * radix + d)))"

text \<open>
  \<open>parseInt(v)\<close>: the argument is converted to a string, leading white space is dropped,
  a sign is read, a \<open>0x\<close> prefix selects radix 16, and the longest digit prefix is the
  value. \<open>None\<close> is \<open>NaN\<close>.
\<close>

definition parseInt :: "jsval \<Rightarrow> int option" where
  "parseInt v =
     (let s = dropWhile is_ws (to_string v);
          neg = (case s of c # _ \<Rightarrow> c = CHR ''-'' | [] \<Rightarrow> False);
          s1 = (case s of c # r \<Rightarrow> if c = CHR ''-'' \<or> c = CHR ''+'' then r else s | [] \<Rightarrow> s);
          hex = (take 2 s1 = ''0x'' \<or> take 2 s1 = ''0X'');
          radix = (if hex then 16 else 10);
          s2 = (if hex then drop 2 s1 else s1)
      in case parse_digits radix s2 None of
           None \<Rightarrow> None
         | Some m \<Rightarrow> Some (if neg then - int m else int m))"

text \<open>\<open>timeout > 0\<close>: a comparison with \<open>NaN\<close> is false.\<close>

definition gt_zero :: "int option \<Rightarrow> bool" where
  "gt_zero r = (case r of None \<Rightarrow> False | Some n \<Rightarrow> 0 < n)"

text \<open>\<open>parseInt(v) || 0\<close>: \<open>NaN\<close> and \<open>0\<close> are falsy.\<close>

definition or_zero :: "int option \<Rightarrow> int" where
  "or_zero r = (case r of None \<Rightarrow> 0 | Some n \<Rightarrow> n)"

section \<open>Effects of a process\<close>

text \<open>
  Everything a handler does to the outside world is appended to a trace, in program order.
  A timer callback is either \<open>() => process.exit(c)\<close> or the worker's \<open>shutdown\<close> function.
\<close>

datatype callback = CbExit int | CbShutdown

datatype effect =
    SetTimeout callback int
  | Emit string
  | DbConnect
  | DbDisconnect
  | ServerClose
  | HttpServerClose
  | Log string "string option" string
  | Exit int
  | WatchFile jsval callback
  | OnceSignal string
  | HttpsServer jsval jsval jsval
  | HttpServer
  | Listen jsval
  | HttpListen jsval
  | Fork nat
  | Send nat string

section \<open>worker.mjs: the shutdown sequence\<close>

text \<open>
  The collaborators of worker.mjs (the database client, the logger, the lifecycle bus, the
  two listeners) appear through the calls made to them, recorded as effects, and through
  what they answer, delivered as events. An error is the message it carries.
\<close>

text \<open>
  A subscriber of the lifecycle bus either completes at once, returns an operation that
  is still pending, or throws.
\<close>

datatype subscriber = Immediate | Pending | Throws string

record wconf =
  timeout :: jsval
  subscribers :: "subscriber list"
  db_defined :: bool

text \<open>
  The continuation of the \<open>async function shutdown\<close>: not started, suspended at
  \<open>await db?.disconnect()\<close>, suspended at \<open>await Promise.all([...])\<close>, or finished.
\<close>

datatype phase = Idle | AwaitDb | AwaitClose | Finished

record wstate =
  executed :: bool
  server :: bool
  httpServer :: bool
  phase :: phase
  forced :: bool
  pending_subs :: "nat list"
  srv_closing :: bool
  http_closing :: bool
  exit_code :: "int option"
  trace :: "effect list"

definition do_effect :: "effect \<Rightarrow> wstate \<Rightarrow> wstate" where
  "do_effect e s = s\<lparr>trace := trace s @ [e]\<rparr>"

text \<open>\<open>process.exit(c)\<close>.\<close>

definition process_exit :: "int \<Rightarrow> wstate \<Rightarrow> wstate" where
  "process_exit c s = (do_effect (Exit c) s)\<lparr>exit_code := Some c, phase := Finished\<rparr>"

text \<open>
  Modelled from the spec: \<open>events/lifecycle.mjs\<close> is not among the sources. \<open>emit\<close> calls
  every subscriber in registration order; a subscriber that returns a pending operation
  leaves it pending, and a subscriber that throws ends the call with its error.
  The result is the error, if any, and the indices of the operations left pending.
\<close>

fun lifecycle_emit :: "subscriber list \<Rightarrow> nat \<Rightarrow> nat list \<Rightarrow> string option \<times> nat list" where
  "lifecycle_emit [] i acc = (None, acc)"
| "lifecycle_emit (Immediate # subs) i acc = lifecycle_emit subs (Suc i) acc"
| "lifecycle_emit (Pending # subs) i acc = lifecycle_emit subs (Suc i) (acc @ [i])"
| "lifecycle_emit (Throws msg # subs) i acc = (Some msg, acc)"

text \<open>The \<open>catch (err)\<close> block of \<open>shutdown\<close>.\<close>

definition shutdown_catch :: "string \<Rightarrow> wstate \<Rightarrow> wstate" where
  "shutdown_catch msg s = process_exit 1 (do_effect (Log ''error'' (Some ''server'') msg) s)"

text \<open>
  \<open>Promise.all\<close> over the two closes: \<open>server.close\<close> and \<open>httpServer.close\<close> are called in
  this order when the variable is set; a missing listener resolves at once. With nothing
  left to wait for, \<open>process.exit(0)\<close> follows.
\<close>

definition close_listeners :: "wstate \<Rightarrow> wstate" where
  "close_listeners s =
     (let s1 = (if server s then (do_effect ServerClose s)\<lparr>srv_closing := True\<rparr> else s);
          s2 = (if httpServer s1 then (do_effect HttpServerClose s1)\<lparr>http_closing := True\<rparr> else s1)
      in if srv_closing s2 \<or> http_closing s2 then s2\<lparr>phase := AwaitClose\<rparr>
         else process_exit 0 s2)"

text \<open>
  \<open>if (timeout > 0) setTimeout(() => process.exit(1), timeout * 1000)\<close>; the comparison is
  false for \<open>NaN\<close>.
\<close>

definition arm_forced_exit :: "int option \<Rightarrow> wstate \<Rightarrow> wstate" where
  "arm_forced_exit t s =
     (case t of
        None \<Rightarrow> s
      | Some n \<Rightarrow>
          if 0 < n then (do_effect (SetTimeout (CbExit 1) (n * 1000)) s)\<lparr>forced := True\<rparr> else s)"

text \<open>
  A call of \<open>shutdown\<close>, up to its first suspension. The value of
  \<open>lifecycle.emit('shutdown')\<close> is dropped by the source: only \<open>db?.disconnect()\<close> is awaited.
\<close>

definition shutdown :: "wconf \<Rightarrow> wstate \<Rightarrow> wstate" where
  "shutdown cfg s =
     (if executed s then s
      else
        let s1 = s\<lparr>executed := True\<rparr>;
            s2 = arm_forced_exit (parseInt (timeout cfg)) s1;
            s3 = do_effect (Emit ''shutdown'') s2;
            r = lifecycle_emit (subscribers cfg) 0 []
        in case fst r of
             Some msg \<Rightarrow> shutdown_catch msg (s3\<lparr>pending_subs := snd r\<rparr>)
           | None \<Rightarrow>
               let s4 = s3\<lparr>pending_subs := snd r\<rparr>
               in if db_defined cfg then (do_effect DbDisconnect s4)\<lparr>phase := AwaitDb\<rparr>
                  else close_listeners s4)"

text \<open>
  What the event loop of a worker can deliver: a call of \<open>shutdown\<close> (a signal, a change of
  a watched credential file, the timer of the startup failure), the forced-exit timer,
  the outcome of \<open>db.disconnect()\<close> (\<open>None\<close>: resolved, \<open>Some msg\<close>: rejected), the callback
  of a listener's \<open>close\<close>, and the completion of a subscriber's pending operation.
\<close>

datatype wevent =
    Trigger
  | ForceTimer
  | DbSettled "string option"
  | ServerClosed
  | HttpServerClosed
  | SubscriberDone nat

definition listener_closed :: "wstate \<Rightarrow> wstate" where
  "listener_closed s = (if srv_closing s \<or> http_closing s then s else process_exit 0 s)"

text \<open>One turn of the event loop. A process that has exited runs nothing.\<close>

fun step :: "wconf \<Rightarrow> wstate \<Rightarrow> wevent \<Rightarrow> wstate" where
  "step cfg s ev =
     (if exit_code s \<noteq> None then s
      else case ev of
          Trigger \<Rightarrow> shutdown cfg s
        | ForceTimer \<Rightarrow> (if forced s then process_exit 1 s else s)
        | DbSettled r \<Rightarrow>
            (if phase s = AwaitDb
             then (case r of None \<Rightarrow> close_listeners s | Some msg \<Rightarrow> shutdown_catch msg s)
             else s)
        | ServerClosed \<Rightarrow>
            (if phase s = AwaitClose \<and> srv_closing s
             then listener_closed (s\<lparr>srv_closing := False\<rparr>) else s)
        | HttpServerClosed \<Rightarrow>
            (if phase s = AwaitClose \<and> http_closing s
             then listener_closed (s\<lparr>http_closing := False\<rparr>) else s)
        | SubscriberDone i \<Rightarrow> s\<lparr>pending_subs := removeAll i (pending_subs s)\<rparr>)"

definition run :: "wconf \<Rightarrow> wstate \<Rightarrow> wevent list \<Rightarrow> wstate" where
  "run cfg s evs = foldl (step cfg) s evs"

text \<open>A worker after a successful startup: both listeners may or may not exist.\<close>

definition worker_init :: "bool \<Rightarrow> bool \<Rightarrow> wstate" where
  "worker_init srv http =
     \<lparr>executed = False, server = srv, httpServer = http, phase = Idle, forced = False,
      pending_subs = [], srv_closing = False, http_closing = False, exit_code = None,
      trace = []\<rparr>"

section \<open>worker.mjs: credentials, protocol selection and startup\<close>

text \<open>The regular expression \<open>/^-----/\<close>.\<close>

definition pem_prefix :: "string \<Rightarrow> bool" where
  "pem_prefix v = (take 5 v = ''-----'')"

text \<open>
  \<open>replace(/\\n/g, '\n')\<close>: every backslash followed by the letter n becomes one line feed,
  scanning from the left.
\<close>

fun unescape_newlines :: "string \<Rightarrow> string" where
  "unescape_newlines [] = []"
| "unescape_newlines [c] = [c]"
| "unescape_newlines (c # d # cs) =
     (if c = CHR 0x5C \<and> d = CHR ''n'' then CHR 0x0A # unescape_newlines cs
      else c # unescape_newlines (d # cs))"

text \<open>
  \<open>parseConf\<close>. The file system is a parameter: \<open>readFileSync v\<close> is \<open>Inr\<close> the contents or
  \<open>Inl\<close> the message of the error it throws. The \<open>catch\<close> block logs and falls through, so
  the function returns \<open>undefined\<close>; the file is watched only after a successful read.
\<close>

definition parseConf :: "(jsval \<Rightarrow> string + string) \<Rightarrow> jsval \<Rightarrow> wstate \<Rightarrow> jsval \<times> wstate" where
  "parseConf readFileSync val s =
     (if \<not> truthy val then (JUndefined, s)
      else if pem_prefix (to_string val) then (JStr (unescape_newlines (to_string val)), s)
      else case readFileSync val of
             Inr data \<Rightarrow> (JStr data, do_effect (WatchFile val CbShutdown) s)
           | Inl msg \<Rightarrow> (JUndefined, do_effect (Log ''error'' (Some ''server'') msg) s))"

record lconf =
  ssl_key :: jsval
  ssl_cert :: jsval
  ssl_ca :: jsval
  port :: jsval
  http_port :: jsval
  http_timeout :: jsval
  http_webroot :: jsval

datatype protocol = Http | Https

text \<open>\<open>nconf.get('ssl:key') && nconf.get('ssl:cert') ? 'https' : 'http'\<close>.\<close>

definition select_protocol :: "lconf \<Rightarrow> protocol" where
  "select_protocol lc = (if truthy (ssl_key lc) \<and> truthy (ssl_cert lc) then Https else Http)"

text \<open>
  The construction of \<open>server\<close>: the protocol is fixed first, then the three credentials
  are parsed in the order key, cert, ca, and handed to \<open>https.Server\<close> as they are. Whether
  the constructor accepts them is a parameter: \<open>construct k c a\<close> is \<open>None\<close> when it returns
  and \<open>Some msg\<close> when it throws, and then the variable \<open>server\<close> is not assigned.
  \<open>http.Server(app)\<close> takes no configuration and returns. The result is the state and
  the error thrown, if any.
\<close>

definition create_server ::
  "(jsval \<Rightarrow> string + string) \<Rightarrow> (jsval \<Rightarrow> jsval \<Rightarrow> jsval \<Rightarrow> string option) \<Rightarrow> lconf \<Rightarrow> wstate
     \<Rightarrow> wstate \<times> string option" where
  "create_server readFileSync construct lc s =
     (if select_protocol lc = Https
      then
        let k = parseConf readFileSync (ssl_key lc) s;
            c = parseConf readFileSync (ssl_cert lc) (snd k);
            a = parseConf readFileSync (ssl_ca lc) (snd c);
            s1 = do_effect (HttpsServer (fst k) (fst c) (fst a)) (snd a)
        in case construct (fst k) (fst c) (fst a) of
             None \<Rightarrow> (s1\<lparr>server := True\<rparr>, None)
           | Some msg \<Rightarrow> (s1, Some msg)
      else ((do_effect HttpServer s)\<lparr>server := True\<rparr>, None))"

text \<open>
  The \<open>catch (err)\<close> block of the startup function: the error is not read; a timer that
  calls \<open>shutdown\<close> is set to \<open>(parseInt(timeout) || 0) * 1000\<close> milliseconds.
\<close>

definition startup_catch :: "wconf \<Rightarrow> string \<Rightarrow> wstate \<Rightarrow> wstate" where
  "startup_catch cfg err s =
     do_effect (SetTimeout CbShutdown (or_zero (parseInt (timeout cfg)) * 1000)) s"

text \<open>
  The startup function, with the outcome of \<open>db.connect()\<close> as a parameter (\<open>None\<close>:
  connected, \<open>Some msg\<close>: rejected). A rejected connect and a constructor that throws both
  end in the \<open>catch\<close> block. The middleware chain mounted between the construction of the
  server and \<open>listen\<close> does not touch the state of this model.
\<close>

definition runWorker ::
  "wconf \<Rightarrow> lconf \<Rightarrow> (jsval \<Rightarrow> string + string) \<Rightarrow> (jsval \<Rightarrow> jsval \<Rightarrow> jsval \<Rightarrow> string option)
     \<Rightarrow> string option \<Rightarrow> wstate \<Rightarrow> wstate" where
  "runWorker cfg lc readFileSync construct connect s =
     (let s1 = do_effect DbConnect
                 (do_effect (OnceSignal ''SIGUSR2'')
                   (do_effect (OnceSignal ''SIGINT'')
                     (do_effect (OnceSignal ''SIGTERM'') s)))
      in case connect of
           Some err \<Rightarrow> startup_catch cfg err s1
         | None \<Rightarrow>
             (case create_server readFileSync construct lc s1 of
                (s2, Some err) \<Rightarrow> startup_catch cfg err s2
              | (s2, None) \<Rightarrow>
                  let s3 = do_effect (Listen (port lc)) s2;
                      s4 = (if select_protocol lc = Https \<and> truthy (http_port lc)
                            then (do_effect (HttpListen (http_port lc)) s3)\<lparr>httpServer := True\<rparr>
                            else s3)
                  in do_effect (Emit ''startup'') s4))"

section \<open>worker.mjs: the plaintext listener\<close>

record request =
  url :: string
  host :: jsval

record response =
  status :: nat
  headers :: "(string \<times> jsval) list"
  body :: string

text \<open>
  \<open>req.setTimeout\<close> and \<open>path.join\<close> validate their argument and throw otherwise; the handler
  is an async function, so the request is then left without a response.
\<close>

datatype herror = InvalidArgType | OutOfRange

definition check_msecs :: "jsval \<Rightarrow> herror option" where
  "check_msecs v =
     (case v of JNum n \<Rightarrow> (if n < 0 then Some OutOfRange else None) | _ \<Rightarrow> Some InvalidArgType)"

text \<open>The regular expression \<open>/^\/\.well-known\/acme-challenge\//\<close>.\<close>

definition acme_prefix :: "string \<Rightarrow> bool" where
  "acme_prefix u = (take 28 u = ''/.well-known/acme-challenge/'')"

definition not_found :: response where
  "not_found = \<lparr>status = 404, headers = [(''Content-Type'', JStr ''text/plain'')], body = ''Not Found''\<rparr>"

text \<open>\<open>Buffer.byteLength(data)\<close> of the bytes read.\<close>

definition found :: "string \<Rightarrow> response" where
  "found data =
     \<lparr>status = 200,
      headers = [(''Content-Length'', JNum (int (length data))), (''Content-Type'', JStr ''text/plain'')],
      body = data\<rparr>"

text \<open>The template literal of the \<open>Location\<close> header; \<open>port\<close> is compared with the string \<open>'443'\<close>.\<close>

definition location :: "jsval \<Rightarrow> request \<Rightarrow> string" where
  "location p req =
     ''https://'' @ to_string (host req)
       @ (if strict_eq p (JStr ''443'') then [] else '':'' @ to_string p)
       @ url req"

definition redirect :: "lconf \<Rightarrow> request \<Rightarrow> response" where
  "redirect lc req =
     \<lparr>status = 301, headers = [(''Location'', JStr (location (port lc) req))], body = []\<rparr>"

subsection \<open>\<open>path.join\<close> on a POSIX system\<close>

text \<open>The segments of a path between its slashes; \<open>cur\<close> is the segment being read.\<close>

fun split_path :: "string \<Rightarrow> string \<Rightarrow> string list" where
  "split_path [] cur = [cur]"
| "split_path (c # cs) cur =
     (if c = CHR ''/'' then cur # split_path cs [] else split_path cs (cur @ [c]))"

text \<open>
  Empty segments and \<open>.\<close> are dropped; \<open>..\<close> removes the segment before it, and where there
  is none it is kept in a relative path (\<open>up\<close>) and dropped in an absolute one.
\<close>

fun normalize_segments :: "bool \<Rightarrow> string list \<Rightarrow> string list \<Rightarrow> string list" where
  "normalize_segments up [] res = res"
| "normalize_segments up (g # gs) res =
     (if g = [] \<or> g = ''.'' then normalize_segments up gs res
      else if g = ''..'' then
        (if res = [] then normalize_segments up gs (if up then [g] else [])
         else if last res = ''..'' then normalize_segments up gs (if up then res @ [g] else res)
         else normalize_segments up gs (butlast res))
      else normalize_segments up gs (res @ [g]))"

fun join_slash :: "string list \<Rightarrow> string" where
  "join_slash [] = []"
| "join_slash [g] = g"
| "join_slash (g # h # gs) = g @ CHR ''/'' # join_slash (h # gs)"

definition path_normalize :: "string \<Rightarrow> string" where
  "path_normalize p =
     (let absolute = (take 1 p = ''/'');
          trailing = (p \<noteq> [] \<and> last p = CHR ''/'');
          res = join_slash (normalize_segments (\<not> absolute) (split_path p []) [])
      in if res = [] then (if absolute then ''/'' else if trailing then ''./'' else ''.'')
         else (if absolute then ''/'' else []) @ res @ (if trailing then ''/'' else []))"

text \<open>\<open>path.join(a, b)\<close>: the non-empty arguments joined by a slash, then normalised.\<close>

definition path_join :: "string \<Rightarrow> string \<Rightarrow> string" where
  "path_join a b =
     (let joined = join_slash (filter (\<lambda>x. x \<noteq> []) [a, b])
      in if joined = [] then ''.'' else path_normalize joined)"

text \<open>A path lies under a directory when it starts with the directory and a slash.\<close>

definition inside :: "string \<Rightarrow> string \<Rightarrow> bool" where
  "inside root p = (take (Suc (length root)) p = root @ ''/'')"

subsection \<open>The handler\<close>

text \<open>
  The request handler of \<open>httpServer\<close>. The file system is a parameter: \<open>readFile p\<close> is
  \<open>Inr\<close> the bytes of the file at \<open>p\<close> or \<open>Inl\<close> the error of the read.
\<close>

definition http_request ::
  "lconf \<Rightarrow> (string \<Rightarrow> string + string) \<Rightarrow> request \<Rightarrow> herror + response" where
  "http_request lc readFile req =
     (case (if truthy (http_timeout lc) then check_msecs (http_timeout lc) else None) of
        Some e \<Rightarrow> Inl e
      | None \<Rightarrow>
          if truthy (http_webroot lc) \<and> acme_prefix (url req)
          then (case http_webroot lc of
                  JStr root \<Rightarrow>
                    (case readFile (path_join root (url req)) of
                       Inl err \<Rightarrow> Inr not_found
                     | Inr data \<Rightarrow> Inr (found data))
                | _ \<Rightarrow> Inl InvalidArgType)
          else Inr (redirect lc req))"

section \<open>server.mjs: the supervisor and its shutdown function\<close>

text \<open>
  server.mjs is the entry module of the primary and of every worker; a worker goes on to
  call the startup function of worker.mjs. Its \<open>shutdown\<close> is a function of its own, with
  a flag of its own, and is modelled apart from the worker's. \<open>utils/events.mjs\<close>,
  \<open>utils/logger.mjs\<close> and the cluster module appear through their effects only.
\<close>

text \<open>
  \<open>const { TIMEOUT = 10 } = process.env\<close>: the default applies when the variable is unset.
\<close>

definition env_TIMEOUT :: "string option \<Rightarrow> jsval" where
  "env_TIMEOUT v = (case v of None \<Rightarrow> JNum 10 | Some s \<Rightarrow> JStr s)"

record sconf =
  TIMEOUT :: jsval
  isPrimary :: bool

text \<open>
  \<open>s_await\<close> holds the exit code of a call suspended at \<open>await events.emit('shutdown')\<close>;
  \<open>workers\<close> are the keys of \<open>cluster.workers\<close> in iteration order.
\<close>

record sstate =
  s_executed :: bool
  s_forced :: bool
  s_await :: "int option"
  s_exit :: "int option"
  workers :: "nat list"
  next_id :: nat
  s_trace :: "effect list"

definition s_effect :: "effect \<Rightarrow> sstate \<Rightarrow> sstate" where
  "s_effect e s = s\<lparr>s_trace := s_trace s @ [e]\<rparr>"

definition s_process_exit :: "int \<Rightarrow> sstate \<Rightarrow> sstate" where
  "s_process_exit c s = (s_effect (Exit c) s)\<lparr>s_exit := Some c, s_await := None\<rparr>"

definition s_arm_forced_exit :: "int option \<Rightarrow> sstate \<Rightarrow> sstate" where
  "s_arm_forced_exit t s =
     (case t of
        None \<Rightarrow> s
      | Some n \<Rightarrow>
          if 0 < n then (s_effect (SetTimeout (CbExit 1) (n * 1000)) s)\<lparr>s_forced := True\<rparr> else s)"

text \<open>\<open>async function shutdown (code = 0)\<close>: a call without argument has code 0.\<close>

definition default_code :: "int option \<Rightarrow> int" where
  "default_code a = (case a of None \<Rightarrow> 0 | Some c \<Rightarrow> c)"

text \<open>The call up to \<open>await events.emit('shutdown')\<close>; on the primary it returns before.\<close>

definition s_shutdown :: "sconf \<Rightarrow> int option \<Rightarrow> sstate \<Rightarrow> sstate" where
  "s_shutdown cfg arg s =
     (if s_executed s then s
      else
        let s1 = s\<lparr>s_executed := True\<rparr>;
            s2 = s_arm_forced_exit (parseInt (TIMEOUT cfg)) s1
        in if isPrimary cfg then s2
           else (s_effect (Emit ''shutdown'') s2)\<lparr>s_await := Some (default_code arg)\<rparr>)"

text \<open>The rest of the call, once the awaited emit has settled.\<close>

definition s_shutdown_resume :: "string option \<Rightarrow> sstate \<Rightarrow> sstate" where
  "s_shutdown_resume r s =
     (case s_await s of
        None \<Rightarrow> s
      | Some code \<Rightarrow>
          (case r of
             None \<Rightarrow> s_process_exit code (s_effect (Log ''info'' None ''Worker has been stopped'') s)
           | Some msg \<Rightarrow> s_process_exit 1 (s_effect (Log ''error'' None msg) s)))"

text \<open>\<open>cluster.fork()\<close>: a new worker with the next identifier.\<close>

definition cluster_fork :: "sstate \<Rightarrow> sstate" where
  "cluster_fork s =
     (s_effect (Fork (next_id s)) s)\<lparr>workers := workers s @ [next_id s], next_id := Suc (next_id s)\<rparr>"

text \<open>\<open>for (let i = 0; i < THREADS; i++) cluster.fork()\<close>.\<close>

fun create_workers :: "nat \<Rightarrow> sstate \<Rightarrow> sstate" where
  "create_workers 0 s = s"
| "create_workers (Suc n) s = create_workers n (cluster_fork s)"

text \<open>The handler of \<open>cluster.on('exit')\<close>; worker, code and signal are not read.\<close>

definition on_worker_exit :: "nat \<Rightarrow> int \<Rightarrow> string option \<Rightarrow> sstate \<Rightarrow> sstate" where
  "on_worker_exit worker code signal s = (if s_executed s then s else cluster_fork s)"

text \<open>The handler of \<open>cluster.on('message')\<close>: the loop over \<open>cluster.workers\<close>.\<close>

fun relay :: "nat list \<Rightarrow> string \<Rightarrow> sstate \<Rightarrow> sstate" where
  "relay [] data s = s"
| "relay (i # ids) data s = relay ids data (s_effect (Send i data) s)"

definition on_worker_message :: "nat \<Rightarrow> string \<Rightarrow> sstate \<Rightarrow> sstate" where
  "on_worker_message worker data s = relay (workers s) data s"

text \<open>
  Events of a process running server.mjs: a call of its \<open>shutdown\<close> (signals pass no code,
  the \<open>exit\<close> event passes the exit code), the forced-exit timer, the outcome of the awaited
  emit, and on the primary the exit of a worker and a message from a worker. The cluster
  module drops an exited worker from \<open>cluster.workers\<close> before it calls the handler.
\<close>

datatype sevent =
    SShutdown "int option"
  | SForceTimer
  | EmitSettled "string option"
  | WorkerExit nat int "string option"
  | WorkerMessage nat string

fun s_step :: "sconf \<Rightarrow> sstate \<Rightarrow> sevent \<Rightarrow> sstate" where
  "s_step cfg s ev =
     (if s_exit s \<noteq> None then s
      else case ev of
          SShutdown arg \<Rightarrow> s_shutdown cfg arg s
        | SForceTimer \<Rightarrow> (if s_forced s then s_process_exit 1 s else s)
        | EmitSettled r \<Rightarrow> s_shutdown_resume r s
        | WorkerExit w code signal \<Rightarrow>
            (if isPrimary cfg
             then on_worker_exit w code signal (s\<lparr>workers := removeAll w (workers s)\<rparr>)
             else s)
        | WorkerMessage w data \<Rightarrow>
            (if isPrimary cfg then on_worker_message w data s else s))"

definition s_run :: "sconf \<Rightarrow> sstate \<Rightarrow> sevent list \<Rightarrow> sstate" where
  "s_run cfg s evs = foldl (s_step cfg) s evs"

definition s_blank :: sstate where
  "s_blank = \<lparr>s_executed = False, s_forced = False, s_await = None, s_exit = None,
              workers = [], next_id = 1, s_trace = []\<rparr>"

text \<open>The module body: the primary forks \<open>THREADS\<close> workers, a worker forks nothing.\<close>

definition server_init :: "sconf \<Rightarrow> nat \<Rightarrow> sstate" where
  "server_init cfg threads = (if isPrimary cfg then create_workers threads s_blank else s_blank)"

section \<open>Teardown steps in a trace\<close>

text \<open>
  The steps of a shutdown sequence as they show in a trace: arming the forced-exit timer,
  publishing the \<open>shutdown\<close> event, disconnecting the database, closing either listener.
\<close>

datatype tstep = ArmTimer | Publish | Disconnect | CloseServer | CloseHttp

fun teardown_step :: "effect \<Rightarrow> tstep option" where
  "teardown_step (SetTimeout (CbExit c) ms) = Some ArmTimer"
| "teardown_step (Emit n) = (if n = ''shutdown'' then Some Publish else None)"
| "teardown_step DbDisconnect = Some Disconnect"
| "teardown_step ServerClose = Some CloseServer"
| "teardown_step HttpServerClose = Some CloseHttp"
| "teardown_step e = None"

definition occurs :: "tstep \<Rightarrow> effect list \<Rightarrow> nat" where
  "occurs k tr = length (filter (\<lambda>e. teardown_step e = Some k) tr)"

text \<open>
  Invariants of the two event loops: no step has run before the flag is set, no step has
  run twice, and a listener is closed only after the wait for the database.
\<close>

definition winv :: "wstate \<Rightarrow> bool" where
  "winv s = ((\<forall>k. occurs k (trace s) \<le> 1)
     \<and> (executed s \<or> (phase s = Idle \<and> \<not> forced s \<and> (\<forall>k. occurs k (trace s) = 0)))
     \<and> ((phase s \<noteq> AwaitDb \<and> phase s \<noteq> Idle) \<or> (occurs CloseServer (trace s) = 0 \<and> occurs CloseHttp (trace s) = 0)))"


text \<open>
  Order in a trace: the first teardown step among publishing \<open>shutdown\<close> and closing a
  listener is the publishing, if there is any. \<open>published\<close>: the event has been published.
\<close>

fun publish_first :: "effect list \<Rightarrow> bool" where
  "publish_first [] = True"
| "publish_first (e # es) =
     (if teardown_step e = Some Publish then True
      else if teardown_step e = Some CloseServer \<or> teardown_step e = Some CloseHttp then False
      else publish_first es)"

definition published :: "effect list \<Rightarrow> bool" where
  "published tr = (0 < occurs Publish tr)"

text \<open>With the order, what the trace holds before and after the flag is set.\<close>

definition oinv :: "wstate \<Rightarrow> bool" where
  "oinv s = (publish_first (trace s)
     \<and> (if executed s then published (trace s)
         else occurs Publish (trace s) = 0 \<and> occurs CloseServer (trace s) = 0
              \<and> occurs CloseHttp (trace s) = 0))"

section \<open>A worker process: both modules together\<close>

text \<open>
  A worker process loads server.mjs, which registers its \<open>shutdown\<close> for the three signals
  and for the \<open>exit\<close> event whatever the role of the process, and then runs the startup
  function of worker.mjs, which registers the worker's \<open>shutdown\<close> for the three signals,
  for a change of a watched credential file and for the timer of a startup failure.
  The two functions keep a flag each. A signal calls both, server.mjs's first; the \<open>exit\<close>
  event calls server.mjs's only; a credential change and a startup failure call the
  worker's only.
\<close>

datatype trigger = Signal string | ProcessExit int | StartupError | CredentialChange

record wprocess =
  main_part :: sstate
  worker_part :: wstate

definition worker_sconf :: "jsval \<Rightarrow> sconf" where
  "worker_sconf T = \<lparr>TIMEOUT = T, isPrimary = False\<rparr>"

text \<open>The process has exited when either part has called \<open>process.exit\<close>.\<close>

definition exit_status :: "wprocess \<Rightarrow> int option" where
  "exit_status p =
     (case s_exit (main_part p) of Some c \<Rightarrow> Some c | None \<Rightarrow> exit_code (worker_part p))"

definition call_handlers :: "jsval \<Rightarrow> wconf \<Rightarrow> trigger \<Rightarrow> wprocess \<Rightarrow> wprocess" where
  "call_handlers T cfg tr p =
     (case tr of
        Signal n \<Rightarrow>
          p\<lparr>main_part := s_shutdown (worker_sconf T) None (main_part p),
            worker_part := shutdown cfg (worker_part p)\<rparr>
      | ProcessExit c \<Rightarrow> p\<lparr>main_part := s_shutdown (worker_sconf T) (Some c) (main_part p)\<rparr>
      | StartupError \<Rightarrow> p\<lparr>worker_part := shutdown cfg (worker_part p)\<rparr>
      | CredentialChange \<Rightarrow> p\<lparr>worker_part := shutdown cfg (worker_part p)\<rparr>)"

text \<open>
  \<open>process.exit(c)\<close> emits \<open>exit\<close> before the process ends: the listener of server.mjs
  then calls its \<open>shutdown(c)\<close>.
\<close>

definition on_exit :: "jsval \<Rightarrow> wprocess \<Rightarrow> wprocess" where
  "on_exit T p =
     (case exit_status p of
        None \<Rightarrow> p
      | Some c \<Rightarrow> p\<lparr>main_part := s_shutdown (worker_sconf T) (Some c) (main_part p)\<rparr>)"

text \<open>
  One turn of the event loop of a worker process: a trigger, or an event of either part.
  The end of the process after an \<open>exit\<close> event that no \<open>process.exit\<close> caused is not
  modelled: the run may go on, which only adds behaviours.
\<close>

datatype pevent = PTrigger trigger | PWorker wevent | PMain sevent

definition p_step :: "jsval \<Rightarrow> wconf \<Rightarrow> wprocess \<Rightarrow> pevent \<Rightarrow> wprocess" where
  "p_step T cfg p ev =
     (if exit_status p \<noteq> None then p
      else on_exit T
        (case ev of
           PTrigger tr \<Rightarrow> call_handlers T cfg tr p
         | PWorker e \<Rightarrow> p\<lparr>worker_part := step cfg (worker_part p) e\<rparr>
         | PMain e \<Rightarrow> p\<lparr>main_part := s_step (worker_sconf T) (main_part p) e\<rparr>))"


definition p_init :: "bool \<Rightarrow> bool \<Rightarrow> wprocess" where
  "p_init srv http = \<lparr>main_part = s_blank, worker_part = worker_init srv http\<rparr>"



section \<open>Counting forks, and configurations used as examples\<close>

fun is_fork :: "effect \<Rightarrow> bool" where
  "is_fork (Fork i) = True"
| "is_fork e = False"

definition forks :: "sstate \<Rightarrow> nat" where
  "forks s = length (filter is_fork (s_trace s))"

text \<open>A primary with the default timeout that has forked two workers.\<close>

definition primary10 :: sconf where
  "primary10 = \<lparr>TIMEOUT = env_TIMEOUT None, isPrimary = True\<rparr>"

definition two_workers :: sstate where
  "two_workers = server_init primary10 2"

text \<open>A worker configured with \<open>timeout = '10'\<close>, no subscriber, and a database client.\<close>

definition cfg10 :: wconf where
  "cfg10 = \<lparr>timeout = JStr ''10'', subscribers = [], db_defined = True\<rparr>"

text \<open>
  What holds of the primary throughout: no call is suspended at the emit, the process
  has exited with status 1 if at all, and \<open>shutdown\<close> was never published.
\<close>

definition pinv :: "sstate \<Rightarrow> bool" where
  "pinv s = (s_await s = None \<and> (s_exit s = None \<or> s_exit s = Some 1)
             \<and> occurs Publish (s_trace s) = 0)"

text \<open>A worker with one subscriber whose operation stays pending.\<close>

definition cfg_pending :: wconf where
  "cfg_pending = \<lparr>timeout = JUndefined, subscribers = [Pending], db_defined = True\<rparr>"

text \<open>
  A TLS listener on the numeric port 443 with a plaintext listener on port 80 and a
  webroot; a file system that holds one challenge file under the webroot and one file
  outside it; a file system where only the certificate can be read; and a constructor
  of \<open>https.Server\<close> that throws.
\<close>

definition lc_tls :: lconf where
  "lc_tls = \<lparr>ssl_key = JStr ''/etc/ssl/key.pem'', ssl_cert = JStr ''/etc/ssl/cert.pem'',
            ssl_ca = JUndefined, port = JNum 443, http_port = JNum 80,
            http_timeout = JUndefined, http_webroot = JStr ''/var/www''\<rparr>"

definition one_token :: "string \<Rightarrow> string + string" where
  "one_token p =
     (if p = ''/var/www/.well-known/acme-challenge/token123'' then Inr ''token123.thumb''
      else if p = ''/etc/passwd'' then Inr ''root:x:0:0''
      else Inl ''ENOENT'')"



section \<open>Properties of the shutdown sequence\<close>

lemma parseInt_undefined: "parseInt JUndefined = None"
  by (simp add: parseInt_def is_ws_def digit_val_def dec_val_def)

lemma parseInt_zero: "parseInt (JStr ''0'') = Some 0" "parseInt (JNum 0) = Some 0"
  by (simp_all add: parseInt_def is_ws_def digit_val_def dec_val_def nat_digits.simps digit_char_def)

lemma parseInt_ten: "parseInt (JStr ''10'') = Some 10" "parseInt (JNum 10) = Some 10"
  by (simp_all add: parseInt_def is_ws_def digit_val_def dec_val_def nat_digits.simps digit_char_def)

lemma occurs_Nil: "occurs k [] = 0"
  by (simp add: occurs_def)

lemma occurs_Cons: "occurs k (e # tr) = (if teardown_step e = Some k then 1 else 0) + occurs k tr"
  by (simp add: occurs_def)

lemma occurs_append: "occurs k (tr @ tr') = occurs k tr + occurs k tr'"
  by (simp add: occurs_def)

lemmas occurs_snoc = occurs_append occurs_Cons occurs_Nil

lemma shutdown_idem: "executed s \<Longrightarrow> shutdown cfg s = s"
  by (simp add: shutdown_def)

lemma executed_close: "executed (close_listeners s) = executed s"
  by (simp add: close_listeners_def Let_def process_exit_def do_effect_def)

lemma executed_arm: "executed (arm_forced_exit t s) = executed s"
  by (simp add: arm_forced_exit_def do_effect_def split: option.splits)

lemma shutdown_sets: "executed (shutdown cfg s)"
  by (simp add: shutdown_def Let_def executed_close executed_arm shutdown_catch_def process_exit_def do_effect_def split: option.splits)

lemma step_executed: "executed s \<Longrightarrow> executed (step cfg s ev)"
  by (cases ev) (simp_all add: shutdown_idem executed_close shutdown_catch_def listener_closed_def process_exit_def do_effect_def split: option.splits)


lemma tstep_all: "(\<forall>k. P k) = (P ArmTimer \<and> P Publish \<and> P Disconnect \<and> P CloseServer \<and> P CloseHttp)"
  by (metis tstep.exhaust)

lemma winv_shutdown: "winv s \<Longrightarrow> winv (shutdown cfg s)"
  apply (cases "executed s")
   apply (simp add: shutdown_idem)
  apply (simp add: winv_def tstep_all shutdown_def Let_def arm_forced_exit_def shutdown_catch_def
      close_listeners_def process_exit_def do_effect_def occurs_snoc split: option.splits)
  done

lemma winv_step: "winv s \<Longrightarrow> winv (step cfg s ev)"
proof (cases "exit_code s \<noteq> None")
  case True
  assume "winv s"
  with True show ?thesis by simp
next
  case False
  assume inv: "winv s"
  show ?thesis
  proof (cases ev)
    case Trigger
    with False inv show ?thesis by (simp add: winv_shutdown)
  next
    case ForceTimer
    with False inv show ?thesis
      by (auto simp: winv_def tstep_all process_exit_def do_effect_def occurs_snoc)
  next
    case (DbSettled r)
    with False inv show ?thesis
      by (auto simp: winv_def tstep_all shutdown_catch_def close_listeners_def Let_def
          process_exit_def do_effect_def occurs_snoc split: option.splits)
  next
    case ServerClosed
    with False inv show ?thesis
      by (auto simp: winv_def tstep_all listener_closed_def process_exit_def do_effect_def occurs_snoc)
  next
    case HttpServerClosed
    with False inv show ?thesis
      by (auto simp: winv_def tstep_all listener_closed_def process_exit_def do_effect_def occurs_snoc)
  next
    case (SubscriberDone i)
    with False inv show ?thesis
      by (auto simp: winv_def tstep_all)
  qed
qed


lemma winv_init: "winv (worker_init a b)"
  by (auto simp: winv_def worker_init_def occurs_def)

lemma s_shutdown_idem: "s_executed s \<Longrightarrow> s_shutdown cfg arg s = s"
  by (simp add: s_shutdown_def)

lemma s_shutdown_sets: "s_executed (s_shutdown cfg arg s)"
  by (simp add: s_shutdown_def Let_def s_arm_forced_exit_def s_effect_def split: option.splits)

lemma relay_fields:
  "s_executed (relay ids d s) = s_executed s \<and> s_forced (relay ids d s) = s_forced s
   \<and> s_await (relay ids d s) = s_await s \<and> s_exit (relay ids d s) = s_exit s
   \<and> workers (relay ids d s) = workers s \<and> next_id (relay ids d s) = next_id s"
  by (induction ids arbitrary: s) (simp_all add: s_effect_def)

lemma relay_trace: "s_trace (relay ids d s) = s_trace s @ map (\<lambda>i. Send i d) ids"
  by (induction ids arbitrary: s) (simp_all add: s_effect_def)

lemma occurs_sends: "occurs k (map (\<lambda>i. Send i d) ids) = 0"
  by (induction ids) (simp_all add: occurs_Nil occurs_Cons)

























lemma signal_step_parts:
  assumes "exit_status p = None"
  shows "main_part (p_step T cfg p (PTrigger (Signal n))) = s_shutdown (worker_sconf T) None (main_part p)"
    and "worker_part (p_step T cfg p (PTrigger (Signal n))) = shutdown cfg (worker_part p)"
  using assms
  by (simp_all add: p_step_def call_handlers_def on_exit_def s_shutdown_idem s_shutdown_sets
      split: option.splits)

lemma p_init_fields:
  "exit_status (p_init a b) = None" "main_part (p_init a b) = s_blank"
  "worker_part (p_init a b) = worker_init a b"
  by (simp_all add: p_init_def exit_status_def s_blank_def worker_init_def)




section \<open>Respawn and broadcast on the supervisor\<close>

lemma forks_fork: "forks (cluster_fork s) = Suc (forks s)"
  by (simp add: forks_def cluster_fork_def s_effect_def)

lemma two_workers_eq:
  "two_workers = \<lparr>s_executed = False, s_forced = False, s_await = None, s_exit = None,
                  workers = [1, 2], next_id = 3, s_trace = [Fork 1, Fork 2]\<rparr>"
  by (simp add: two_workers_def primary10_def server_init_def s_blank_def cluster_fork_def
      s_effect_def numeral_2_eq_2)

text \<open>
  C2. The handler of a worker's exit forks exactly one replacement when the supervisor's
  \<open>executed\<close> flag is false and none when it is true, whatever the worker, its exit code
  and its signal; the same holds for the event as the live primary's event loop runs it.
\<close>

theorem respawn_iff_not_shutting_down:
  "forks (on_worker_exit w code signal s) = forks s + (if s_executed s then 0 else 1)
   \<and> (isPrimary cfg \<and> s_exit s = None \<longrightarrow>
        forks (s_step cfg s (WorkerExit w code signal)) = forks s + (if s_executed s then 0 else 1))"
  by (simp add: on_worker_exit_def forks_fork) (simp add: forks_def)

theorem respawn_iff_not_shutting_down_witness:
  "forks (s_step primary10 two_workers (WorkerExit 1 1 None)) = 3
   \<and> forks (s_step primary10 (two_workers\<lparr>s_executed := True\<rparr>) (WorkerExit 1 1 None)) = 2"
  using respawn_iff_not_shutting_down [of 1 1 None two_workers primary10]
    respawn_iff_not_shutting_down [of 1 1 None "two_workers\<lparr>s_executed := True\<rparr>" primary10]
  by (simp add: two_workers_eq forks_def primary10_def)

text \<open>
  C4, as stated, fails: with workers 1 and 2 alive, a message from worker 1 is sent back
  to worker 1.
\<close>

theorem relay_reaches_sender_counterexample:
  "Send 1 ''ping'' \<in> set (s_trace (s_step primary10 two_workers (WorkerMessage 1 ''ping'')))"
  by (simp add: two_workers_eq on_worker_message_def s_effect_def primary10_def)

text \<open>
  C4, amended. For a message from any worker the supervisor calls \<open>send\<close> once for
  every entry of \<open>cluster.workers\<close>, in iteration order, the sender's own entry included.
\<close>

theorem relay_to_every_worker:
  "s_trace (on_worker_message w d s) = s_trace s @ map (\<lambda>i. Send i d) (workers s)"
  by (simp add: on_worker_message_def relay_trace)

theorem relay_to_every_worker_witness:
  "s_trace (on_worker_message 1 ''ping'' two_workers) = [Fork 1, Fork 2, Send 1 ''ping'', Send 2 ''ping'']"
  using relay_to_every_worker [of 1 "''ping''" two_workers] by (simp add: two_workers_eq)

section \<open>The forced-exit timer\<close>

lemma forced_arm: "\<not> forced s \<Longrightarrow> forced (arm_forced_exit t s) = gt_zero t"
  by (simp add: arm_forced_exit_def gt_zero_def do_effect_def split: option.splits)

lemma forced_close: "forced (close_listeners s) = forced s"
  by (simp add: close_listeners_def Let_def process_exit_def do_effect_def)

lemma forced_shutdown:
  "\<not> executed s \<Longrightarrow> \<not> forced s \<Longrightarrow> forced (shutdown cfg s) = gt_zero (parseInt (timeout cfg))"
  by (simp add: shutdown_def Let_def forced_close forced_arm shutdown_catch_def process_exit_def
      do_effect_def split: option.splits)

lemma s_forced_shutdown:
  "\<not> s_executed s \<Longrightarrow> \<not> s_forced s \<Longrightarrow> s_forced (s_shutdown cfg arg s) = gt_zero (parseInt (TIMEOUT cfg))"
  by (simp add: s_shutdown_def Let_def s_arm_forced_exit_def gt_zero_def s_effect_def split: option.splits)

lemma occurs_arm_shutdown:
  "\<not> executed s \<Longrightarrow>
   occurs ArmTimer (trace (shutdown cfg s)) =
     occurs ArmTimer (trace s) + (if gt_zero (parseInt (timeout cfg)) then 1 else 0)"
  by (simp add: shutdown_def Let_def arm_forced_exit_def gt_zero_def shutdown_catch_def
      close_listeners_def process_exit_def do_effect_def occurs_snoc split: option.splits)

lemma occurs_arm_s_shutdown:
  "\<not> s_executed t \<Longrightarrow>
   occurs ArmTimer (s_trace (s_shutdown cfg arg t)) =
     occurs ArmTimer (s_trace t) + (if gt_zero (parseInt (TIMEOUT cfg)) then 1 else 0)"
  by (simp add: s_shutdown_def Let_def s_arm_forced_exit_def gt_zero_def s_effect_def occurs_snoc
      split: option.splits)

lemma s_exit_shutdown: "s_exit (s_shutdown scfg arg t) = s_exit t"
  by (simp add: s_shutdown_def Let_def s_arm_forced_exit_def s_effect_def split: option.splits)

lemma fire_main:
  "exit_status p = None \<Longrightarrow> s_forced (main_part p) \<Longrightarrow>
   exit_status (p_step T cfg p (PMain SForceTimer)) = Some 1"
  by (simp add: p_step_def on_exit_def exit_status_def s_process_exit_def s_effect_def
      s_exit_shutdown split: option.splits)

lemma fire_worker:
  "exit_status p = None \<Longrightarrow> forced (worker_part p) \<Longrightarrow>
   exit_status (p_step T cfg p (PWorker ForceTimer)) = Some 1"
  by (auto simp: p_step_def on_exit_def exit_status_def process_exit_def do_effect_def
      s_exit_shutdown split: option.splits)

text \<open>
  C5, as stated, fails for server.mjs: with \<open>TIMEOUT\<close> absent from the environment the
  value is the default 10 and a first call of \<open>shutdown\<close> arms a timer of 10000 ms. So does
  a SIGTERM in a worker process whose \<open>timeout\<close> setting is absent, through server.mjs's
  function.
\<close>

theorem unset_TIMEOUT_arms_timer_counterexample:
  "s_forced (s_shutdown \<lparr>TIMEOUT = env_TIMEOUT None, isPrimary = True\<rparr> None s_blank)
   \<and> s_trace (s_shutdown \<lparr>TIMEOUT = env_TIMEOUT None, isPrimary = True\<rparr> None s_blank) =
        [SetTimeout (CbExit 1) 10000]
   \<and> s_forced (main_part (p_step (env_TIMEOUT None) (cfg10\<lparr>timeout := JUndefined\<rparr>)
        (p_init True False) (PTrigger (Signal ''SIGTERM''))))"
proof -
  have 1: "s_forced (s_shutdown \<lparr>TIMEOUT = env_TIMEOUT None, isPrimary = True\<rparr> None s_blank)
   \<and> s_trace (s_shutdown \<lparr>TIMEOUT = env_TIMEOUT None, isPrimary = True\<rparr> None s_blank) =
        [SetTimeout (CbExit 1) 10000]"
    by (simp add: s_shutdown_def Let_def env_TIMEOUT_def parseInt_ten s_arm_forced_exit_def
        s_effect_def s_blank_def)
  have "main_part (p_step (env_TIMEOUT None) (cfg10\<lparr>timeout := JUndefined\<rparr>)
        (p_init True False) (PTrigger (Signal ''SIGTERM''))) =
      s_shutdown (worker_sconf (env_TIMEOUT None)) None (main_part (p_init True False))"
    by (rule signal_step_parts) (rule p_init_fields)
  then have 2: "s_forced (main_part (p_step (env_TIMEOUT None) (cfg10\<lparr>timeout := JUndefined\<rparr>)
        (p_init True False) (PTrigger (Signal ''SIGTERM''))))"
    by (simp add: p_init_fields s_shutdown_def Let_def worker_sconf_def env_TIMEOUT_def parseInt_ten
        s_arm_forced_exit_def s_effect_def s_blank_def)
  from 1 2 show ?thesis by simp
qed

text \<open>
  C5, amended. A first call of a \<open>shutdown\<close> function arms its forced-exit timer exactly
  when \<open>parseInt\<close> of its timeout value is a number greater than zero, and adds one timer
  to the trace then. For the worker's function the value is the \<open>timeout\<close> setting: an
  absent value or one that parses to zero arms nothing. For server.mjs's function the
  value is \<open>TIMEOUT\<close>: one that parses to zero arms nothing, and an unset variable, being
  the default 10, arms a timer of 10000 ms. In a worker process a signal calls both
  functions and each arms its timer by its own value. When a timer fires in a process
  that has not exited, whatever the phase of the teardown, the process exits with
  status 1.
\<close>

theorem forced_exit_timer:
  "(\<not> executed s \<and> \<not> forced s \<longrightarrow>
      forced (shutdown cfg s) = gt_zero (parseInt (timeout cfg))
      \<and> occurs ArmTimer (trace (shutdown cfg s)) =
          occurs ArmTimer (trace s) + (if gt_zero (parseInt (timeout cfg)) then 1 else 0)
      \<and> (timeout cfg = JUndefined \<or> parseInt (timeout cfg) = Some 0 \<longrightarrow> \<not> forced (shutdown cfg s)))
   \<and> (\<not> s_executed t \<and> \<not> s_forced t \<longrightarrow>
      s_forced (s_shutdown scfg arg t) = gt_zero (parseInt (TIMEOUT scfg))
      \<and> occurs ArmTimer (s_trace (s_shutdown scfg arg t)) =
          occurs ArmTimer (s_trace t) + (if gt_zero (parseInt (TIMEOUT scfg)) then 1 else 0)
      \<and> (parseInt (TIMEOUT scfg) = Some 0 \<longrightarrow> \<not> s_forced (s_shutdown scfg arg t))
      \<and> (TIMEOUT scfg = env_TIMEOUT None \<longrightarrow>
           s_forced (s_shutdown scfg arg t)
           \<and> SetTimeout (CbExit 1) 10000 \<in> set (s_trace (s_shutdown scfg arg t))))
   \<and> (exit_code s' = None \<and> forced s' \<longrightarrow>
      exit_code (step cfg s' ForceTimer) = Some 1 \<and> trace (step cfg s' ForceTimer) = trace s' @ [Exit 1])
   \<and> (s_exit t' = None \<and> s_forced t' \<longrightarrow>
      s_exit (s_step scfg t' SForceTimer) = Some 1 \<and> s_trace (s_step scfg t' SForceTimer) = s_trace t' @ [Exit 1])
   \<and> (exit_status p = None \<and> \<not> s_executed (main_part p) \<and> \<not> s_forced (main_part p)
        \<and> \<not> executed (worker_part p) \<and> \<not> forced (worker_part p) \<longrightarrow>
      s_forced (main_part (p_step T cfg p (PTrigger (Signal sg)))) = gt_zero (parseInt T)
      \<and> forced (worker_part (p_step T cfg p (PTrigger (Signal sg)))) = gt_zero (parseInt (timeout cfg)))
   \<and> (exit_status p = None \<and> s_forced (main_part p) \<longrightarrow>
      exit_status (p_step T cfg p (PMain SForceTimer)) = Some 1)
   \<and> (exit_status p = None \<and> forced (worker_part p) \<longrightarrow>
      exit_status (p_step T cfg p (PWorker ForceTimer)) = Some 1)"
proof -
  have a: "\<not> executed s \<and> \<not> forced s \<longrightarrow>
      forced (shutdown cfg s) = gt_zero (parseInt (timeout cfg))
      \<and> occurs ArmTimer (trace (shutdown cfg s)) =
          occurs ArmTimer (trace s) + (if gt_zero (parseInt (timeout cfg)) then 1 else 0)
      \<and> (timeout cfg = JUndefined \<or> parseInt (timeout cfg) = Some 0 \<longrightarrow> \<not> forced (shutdown cfg s))"
    using occurs_arm_shutdown [of s cfg]
    by (auto simp: forced_shutdown gt_zero_def parseInt_undefined)
  have b: "\<not> s_executed t \<and> \<not> s_forced t \<longrightarrow>
      s_forced (s_shutdown scfg arg t) = gt_zero (parseInt (TIMEOUT scfg))
      \<and> occurs ArmTimer (s_trace (s_shutdown scfg arg t)) =
          occurs ArmTimer (s_trace t) + (if gt_zero (parseInt (TIMEOUT scfg)) then 1 else 0)
      \<and> (parseInt (TIMEOUT scfg) = Some 0 \<longrightarrow> \<not> s_forced (s_shutdown scfg arg t))
      \<and> (TIMEOUT scfg = env_TIMEOUT None \<longrightarrow>
           s_forced (s_shutdown scfg arg t)
           \<and> SetTimeout (CbExit 1) 10000 \<in> set (s_trace (s_shutdown scfg arg t)))"
  proof -
    have b0: "\<not> s_executed t \<and> \<not> s_forced t \<longrightarrow>
      s_forced (s_shutdown scfg arg t) = gt_zero (parseInt (TIMEOUT scfg))
      \<and> occurs ArmTimer (s_trace (s_shutdown scfg arg t)) =
          occurs ArmTimer (s_trace t) + (if gt_zero (parseInt (TIMEOUT scfg)) then 1 else 0)
      \<and> (parseInt (TIMEOUT scfg) = Some 0 \<longrightarrow> \<not> s_forced (s_shutdown scfg arg t))"
      using occurs_arm_s_shutdown [of t scfg arg]
      by (auto simp: s_forced_shutdown gt_zero_def)
    have b1: "\<not> s_executed t \<and> TIMEOUT scfg = env_TIMEOUT None \<longrightarrow>
           s_forced (s_shutdown scfg arg t)
           \<and> SetTimeout (CbExit 1) 10000 \<in> set (s_trace (s_shutdown scfg arg t))"
      by (simp add: s_shutdown_def Let_def env_TIMEOUT_def parseInt_ten s_arm_forced_exit_def
          s_effect_def)
    from b0 b1 show ?thesis by blast
  qed
  have c: "exit_code s' = None \<and> forced s' \<longrightarrow>
      exit_code (step cfg s' ForceTimer) = Some 1 \<and> trace (step cfg s' ForceTimer) = trace s' @ [Exit 1]"
    by (simp add: process_exit_def do_effect_def)
  have d: "s_exit t' = None \<and> s_forced t' \<longrightarrow>
      s_exit (s_step scfg t' SForceTimer) = Some 1 \<and> s_trace (s_step scfg t' SForceTimer) = s_trace t' @ [Exit 1]"
    by (simp add: s_process_exit_def s_effect_def)
  have e: "exit_status p = None \<and> \<not> s_executed (main_part p) \<and> \<not> s_forced (main_part p)
        \<and> \<not> executed (worker_part p) \<and> \<not> forced (worker_part p) \<longrightarrow>
      s_forced (main_part (p_step T cfg p (PTrigger (Signal sg)))) = gt_zero (parseInt T)
      \<and> forced (worker_part (p_step T cfg p (PTrigger (Signal sg)))) = gt_zero (parseInt (timeout cfg))"
    by (simp add: signal_step_parts s_forced_shutdown forced_shutdown worker_sconf_def)
  have f: "exit_status p = None \<and> s_forced (main_part p) \<longrightarrow>
      exit_status (p_step T cfg p (PMain SForceTimer)) = Some 1"
    by (simp add: fire_main)
  have g: "exit_status p = None \<and> forced (worker_part p) \<longrightarrow>
      exit_status (p_step T cfg p (PWorker ForceTimer)) = Some 1"
    by (simp add: fire_worker)
  from a b c d e f g show ?thesis by blast
qed

lemma worker_init_fields:
  "executed (worker_init a b) = False" "forced (worker_init a b) = False"
  "exit_code (worker_init a b) = None" "trace (worker_init a b) = []"
  by (simp_all add: worker_init_def)

theorem forced_exit_timer_witness:
  "forced (shutdown cfg10 (worker_init True True))
   \<and> \<not> forced (shutdown (cfg10\<lparr>timeout := JUndefined\<rparr>) (worker_init True True))
   \<and> s_forced (s_shutdown primary10 None s_blank)
   \<and> \<not> s_forced (s_shutdown (primary10\<lparr>TIMEOUT := JStr ''0''\<rparr>) None s_blank)
   \<and> exit_code (step cfg10 (shutdown cfg10 (worker_init True True)) ForceTimer) = Some 1
   \<and> s_exit (s_step primary10 (s_shutdown primary10 None s_blank) SForceTimer) = Some 1
   \<and> s_forced (main_part (p_step (JNum 10) (cfg10\<lparr>timeout := JUndefined\<rparr>) (p_init True True)
         (PTrigger (Signal ''SIGTERM''))))
   \<and> \<not> forced (worker_part (p_step (JNum 10) (cfg10\<lparr>timeout := JUndefined\<rparr>) (p_init True True)
         (PTrigger (Signal ''SIGTERM''))))
   \<and> exit_status (p_step (JNum 10) (cfg10\<lparr>timeout := JUndefined\<rparr>)
         (p_step (JNum 10) (cfg10\<lparr>timeout := JUndefined\<rparr>) (p_init True True)
            (PTrigger (Signal ''SIGTERM'')))
         (PMain SForceTimer)) = Some 1"
proof -
  let ?s = "worker_init True True"
  let ?u = "cfg10\<lparr>timeout := JUndefined\<rparr>"
  let ?z = "primary10\<lparr>TIMEOUT := JStr ''0''\<rparr>"
  let ?p = "p_init True True"
  let ?q = "p_step (JNum 10) ?u ?p (PTrigger (Signal ''SIGTERM''))"
  have h: "\<not> executed ?s \<and> \<not> forced ?s" "\<not> s_executed s_blank \<and> \<not> s_forced s_blank"
    by (simp_all add: worker_init_fields s_blank_def)
  have t10: "gt_zero (parseInt (timeout cfg10))" "gt_zero (parseInt (TIMEOUT primary10))"
    "gt_zero (parseInt (JNum 10))"
    by (simp_all add: cfg10_def primary10_def env_TIMEOUT_def parseInt_ten gt_zero_def)
  have tz: "timeout ?u = JUndefined" "parseInt (TIMEOUT ?z) = Some 0"
    by (simp_all add: parseInt_zero)
  note w1 = forced_exit_timer [of ?s cfg10 s_blank primary10 None
      "shutdown cfg10 ?s" "s_shutdown primary10 None s_blank" ?p "JNum 10" "''SIGTERM''"]
  note w2 = forced_exit_timer [of ?s ?u s_blank ?z None ?s s_blank ?p "JNum 10" "''SIGTERM''"]
  note w3 = forced_exit_timer [of ?s ?u s_blank ?z None ?s s_blank ?q "JNum 10" "''SIGTERM''"]
  have f1: "forced (shutdown cfg10 ?s)" "s_forced (s_shutdown primary10 None s_blank)"
    using w1 h t10 by simp_all
  have e1: "exit_code (shutdown cfg10 ?s) = None"
    by (simp add: shutdown_def Let_def cfg10_def arm_forced_exit_def do_effect_def worker_init_def
        split: option.splits)
  have e2: "s_exit (s_shutdown primary10 None s_blank) = None"
    by (simp add: s_shutdown_def Let_def primary10_def s_arm_forced_exit_def s_effect_def s_blank_def
        split: option.splits)
  have hp: "exit_status ?p = None \<and> \<not> s_executed (main_part ?p) \<and> \<not> s_forced (main_part ?p)
        \<and> \<not> executed (worker_part ?p) \<and> \<not> forced (worker_part ?p)"
    by (simp add: p_init_fields worker_init_fields s_blank_def)
  have q1: "s_forced (main_part ?q)" "\<not> forced (worker_part ?q)"
    using w2 hp t10 tz by (simp_all add: gt_zero_def parseInt_undefined)
  have aq: "exit_status ?q = None"
    by (simp add: exit_status_def signal_step_parts p_init_fields s_exit_shutdown s_blank_def
        shutdown_def Let_def cfg10_def parseInt_undefined arm_forced_exit_def do_effect_def
        worker_init_def)
  have q2: "exit_status (p_step (JNum 10) ?u ?q (PMain SForceTimer)) = Some 1"
    using w3 aq q1 by blast
  from w1 w2 h t10 tz f1 e1 e2 q1 q2 show ?thesis by (simp add: gt_zero_def parseInt_undefined)
qed

section \<open>The primary's shutdown\<close>

lemma pinv_fork: "pinv s \<Longrightarrow> pinv (cluster_fork s)"
  by (simp add: pinv_def cluster_fork_def s_effect_def occurs_snoc)

lemma pinv_create: "pinv s \<Longrightarrow> pinv (create_workers n s)"
  by (induction n arbitrary: s) (simp_all add: pinv_fork)

lemma pinv_init: "pinv (server_init cfg n)"
proof -
  have "pinv s_blank" by (simp add: pinv_def s_blank_def occurs_Nil)
  then show ?thesis by (simp add: server_init_def pinv_create)
qed

lemma pinv_step: "isPrimary cfg \<Longrightarrow> pinv s \<Longrightarrow> pinv (s_step cfg s ev)"
proof (cases "s_exit s \<noteq> None")
  case True
  assume "pinv s"
  with True show ?thesis by simp
next
  case False
  assume p: "isPrimary cfg" and inv: "pinv s"
  show ?thesis
  proof (cases ev)
    case (SShutdown arg)
    with False p inv show ?thesis
      by (auto simp: pinv_def s_shutdown_def Let_def s_arm_forced_exit_def s_effect_def occurs_snoc
          split: option.splits)
  next
    case SForceTimer
    with False inv show ?thesis
      by (auto simp: pinv_def s_process_exit_def s_effect_def occurs_snoc)
  next
    case (EmitSettled r)
    with False inv show ?thesis
      by (auto simp: pinv_def s_shutdown_resume_def)
  next
    case (WorkerExit w code signal)
    with False inv show ?thesis
      by (auto simp: pinv_def on_worker_exit_def cluster_fork_def s_effect_def occurs_snoc)
  next
    case (WorkerMessage w d)
    with False inv show ?thesis
      by (auto simp: pinv_def on_worker_message_def relay_fields relay_trace occurs_append occurs_sends)
  qed
qed

lemma pinv_run: "isPrimary cfg \<Longrightarrow> pinv s \<Longrightarrow> pinv (s_run cfg s evs)"
  unfolding s_run_def by (induction evs arbitrary: s) (simp_all add: pinv_step del: s_step.simps)

text \<open>
  C9. On the primary, a first call of \<open>shutdown\<close> with a timeout that parses to \<open>n > 0\<close>
  (an unset \<open>TIMEOUT\<close> parses to 10) sets \<open>executed\<close>, arms a timer of \<open>n * 1000\<close> ms whose
  callback is \<open>process.exit(1)\<close>, and returns: nothing is emitted and the process has not
  exited. In every run of the primary the \<open>shutdown\<close> event is never emitted and the
  process never exits with status 0.
\<close>

theorem primary_shutdown_only_arms_timer:
  "parseInt (env_TIMEOUT None) = Some 10
   \<and> (isPrimary cfg \<and> \<not> s_executed s \<and> parseInt (TIMEOUT cfg) = Some n \<and> 0 < n \<longrightarrow>
        s_shutdown cfg arg s =
          s\<lparr>s_executed := True, s_forced := True,
            s_trace := s_trace s @ [SetTimeout (CbExit 1) (n * 1000)]\<rparr>)
   \<and> (isPrimary cfg \<longrightarrow>
        s_exit (s_run cfg (server_init cfg k) evs) \<noteq> Some 0
        \<and> occurs Publish (s_trace (s_run cfg (server_init cfg k) evs)) = 0)"
proof -
  have a: "parseInt (env_TIMEOUT None) = Some 10"
    by (simp add: env_TIMEOUT_def parseInt_ten)
  have b: "isPrimary cfg \<and> \<not> s_executed s \<and> parseInt (TIMEOUT cfg) = Some n \<and> 0 < n \<longrightarrow>
        s_shutdown cfg arg s =
          s\<lparr>s_executed := True, s_forced := True,
            s_trace := s_trace s @ [SetTimeout (CbExit 1) (n * 1000)]\<rparr>"
    by (simp add: s_shutdown_def Let_def s_arm_forced_exit_def s_effect_def)
  have c: "isPrimary cfg \<longrightarrow>
        s_exit (s_run cfg (server_init cfg k) evs) \<noteq> Some 0
        \<and> occurs Publish (s_trace (s_run cfg (server_init cfg k) evs)) = 0"
    using pinv_run [OF _ pinv_init, of cfg cfg k evs] by (auto simp: pinv_def)
  from a b c show ?thesis by blast
qed

theorem primary_shutdown_only_arms_timer_witness:
  "s_shutdown primary10 None two_workers =
     \<lparr>s_executed = True, s_forced = True, s_await = None, s_exit = None, workers = [1, 2],
      next_id = 3, s_trace = [Fork 1, Fork 2, SetTimeout (CbExit 1) 10000]\<rparr>
   \<and> s_exit (s_run primary10 (server_init primary10 2) [SShutdown None, SForceTimer]) = Some 1"
proof -
  have p: "isPrimary primary10" "parseInt (TIMEOUT primary10) = Some 10"
    by (simp_all add: primary10_def env_TIMEOUT_def parseInt_ten)
  have e: "\<not> s_executed two_workers" by (simp add: two_workers_eq)
  note w = primary_shutdown_only_arms_timer [of primary10 two_workers 10 None 2 "[SShutdown None, SForceTimer]"]
  have 1: "s_shutdown primary10 None two_workers =
     \<lparr>s_executed = True, s_forced = True, s_await = None, s_exit = None, workers = [1, 2],
      next_id = 3, s_trace = [Fork 1, Fork 2, SetTimeout (CbExit 1) 10000]\<rparr>"
    using w p e by (simp add: two_workers_eq)
  have 2: "s_exit (s_run primary10 (server_init primary10 2) [SShutdown None, SForceTimer]) = Some 1"
    using 1 by (simp add: s_run_def two_workers_def [symmetric] two_workers_eq s_process_exit_def s_effect_def)
  from 1 2 show ?thesis by simp
qed

section \<open>Ordering inside the worker's shutdown, and its startup failure\<close>

lemma publish_first_append:
  "publish_first tr \<Longrightarrow> published tr \<Longrightarrow> publish_first (tr @ es)"
  by (induction tr) (auto simp: published_def occurs_Nil occurs_Cons split: if_splits)

lemma publish_first_fresh:
  "occurs Publish tr = 0 \<Longrightarrow> occurs CloseServer tr = 0 \<Longrightarrow> occurs CloseHttp tr = 0 \<Longrightarrow>
   publish_first (tr @ es) = publish_first es"
  by (induction tr) (auto simp: occurs_Nil occurs_Cons split: if_splits)

lemma published_append: "published tr \<Longrightarrow> published (tr @ es)"
  by (simp add: published_def occurs_append)

lemma oinv_grow:
  "oinv s \<Longrightarrow> executed s \<Longrightarrow> trace s' = trace s @ es \<Longrightarrow> executed s' \<Longrightarrow> oinv s'"
  by (simp add: oinv_def publish_first_append published_append)

lemma close_listeners_trace: "\<exists>es. trace (close_listeners s) = trace s @ es"
  by (simp add: close_listeners_def Let_def process_exit_def do_effect_def)

lemma shutdown_published:
  assumes "\<not> executed s" and "oinv s"
  shows "oinv (do_effect (Emit ''shutdown'') (arm_forced_exit t (s\<lparr>executed := True\<rparr>)))"
proof -
  from assms have fresh: "occurs Publish (trace s) = 0" "occurs CloseServer (trace s) = 0"
    "occurs CloseHttp (trace s) = 0"
    by (simp_all add: oinv_def)
  show ?thesis
    using fresh
    by (auto simp: oinv_def arm_forced_exit_def do_effect_def publish_first_fresh published_def
        occurs_snoc split: option.splits)
qed

lemma oinv_shutdown: "oinv s \<Longrightarrow> oinv (shutdown cfg s)"
proof (cases "executed s")
  case True
  assume "oinv s"
  with True show ?thesis by (simp add: shutdown_idem)
next
  case False
  assume inv: "oinv s"
  let ?s3 = "do_effect (Emit ''shutdown'') (arm_forced_exit (parseInt (timeout cfg)) (s\<lparr>executed := True\<rparr>))"
  have o3: "oinv ?s3" using False inv by (rule shutdown_published)
  have e3: "executed ?s3" by (simp add: do_effect_def executed_arm)
  have "\<exists>es. trace (shutdown cfg s) = trace ?s3 @ es"
    using False
    by (simp add: shutdown_def Let_def shutdown_catch_def close_listeners_def
        process_exit_def do_effect_def split: option.splits)
  then obtain es where "trace (shutdown cfg s) = trace ?s3 @ es" by blast
  with o3 e3 shutdown_sets [of cfg s] show ?thesis
    by (blast intro: oinv_grow)
qed

lemma oinv_step: "winv s \<Longrightarrow> oinv s \<Longrightarrow> oinv (step cfg s ev)"
proof (cases "executed s")
  case False
  assume w: "winv s" and inv: "oinv s"
  from False w have idle: "phase s = Idle" "\<not> forced s" by (auto simp: winv_def)
  show ?thesis
  proof (cases ev)
    case Trigger
    with inv show ?thesis by (simp add: oinv_shutdown)
  next
    case (SubscriberDone i)
    with inv show ?thesis by (simp add: oinv_def)
  qed (use idle inv in simp_all)
next
  case True
  assume inv: "oinv s"
  have "\<exists>es. trace (step cfg s ev) = trace s @ es"
    using True close_listeners_trace [of s]
    by (cases ev) (auto simp: shutdown_idem shutdown_catch_def listener_closed_def process_exit_def
        do_effect_def split: option.splits)
  then obtain es where "trace (step cfg s ev) = trace s @ es" by blast
  with inv True step_executed [OF True, of cfg ev] show ?thesis
    by (blast intro: oinv_grow)
qed

lemma both_inv_run: "winv s \<Longrightarrow> oinv s \<Longrightarrow> oinv (run cfg s evs)"
  unfolding run_def
proof (induction evs arbitrary: s)
  case Nil
  then show ?case by simp
next
  case (Cons ev evs)
  from Cons.prems have "winv (step cfg s ev)" "oinv (step cfg s ev)"
    by (simp_all add: winv_step oinv_step del: step.simps)
  then show ?case using Cons.IH by (simp del: step.simps)
qed

lemma oinv_init: "oinv (worker_init a b)"
  by (simp add: oinv_def worker_init_def occurs_Nil)

lemma publish_first_run: "publish_first (trace (run cfg (worker_init a b) evs))"
  using both_inv_run [OF winv_init oinv_init, of cfg a b evs] by (simp add: oinv_def)

text \<open>
  C3, evaluated where the code departs from it. In every run of a worker the \<open>shutdown\<close>
  event is published before any listener is closed. But its subscribers are not awaited:
  when a subscriber returns a pending operation, the worker is told to shut down and
  \<open>db.disconnect()\<close> resolves, both listeners are being closed while the subscriber's
  operation is still pending.
\<close>

theorem listeners_closed_while_subscriber_pending:
  "publish_first (trace (run cfg (worker_init srv http) evs))
   \<and> run cfg_pending (worker_init True True) [Trigger, DbSettled None] =
     \<lparr>executed = True, server = True, httpServer = True, phase = AwaitClose, forced = False,
      pending_subs = [0], srv_closing = True, http_closing = True, exit_code = None,
      trace = [Emit ''shutdown'', DbDisconnect, ServerClose, HttpServerClose]\<rparr>"
  by (simp add: publish_first_run)
    (simp add: run_def cfg_pending_def worker_init_def shutdown_def Let_def parseInt_undefined
      arm_forced_exit_def do_effect_def close_listeners_def)

text \<open>
  C8, evaluated where the code departs from it. When \<open>db.connect()\<close> rejects, whatever the
  error, the startup function adds one effect only: a timer of
  \<open>(parseInt(timeout) || 0) * 1000\<close> ms that calls \<open>shutdown\<close>; the logger is not called.
  With \<open>timeout = '10'\<close> and the error \<open>ECONNREFUSED\<close>, the delayed \<open>shutdown\<close> runs after
  10000 ms, the database disconnects, and the worker exits with status 0: the whole trace
  holds no log entry.
\<close>

theorem startup_failure_not_logged:
  "trace (runWorker cfg lc rd construct (Some err) s) =
     trace s @ [OnceSignal ''SIGTERM'', OnceSignal ''SIGINT'', OnceSignal ''SIGUSR2'', DbConnect,
                SetTimeout CbShutdown (or_zero (parseInt (timeout cfg)) * 1000)]
   \<and> trace (run cfg10 (runWorker cfg10 lc rd construct (Some ''ECONNREFUSED'') (worker_init False False))
            [Trigger, DbSettled None]) =
     [OnceSignal ''SIGTERM'', OnceSignal ''SIGINT'', OnceSignal ''SIGUSR2'', DbConnect,
      SetTimeout CbShutdown 10000, SetTimeout (CbExit 1) 10000, Emit ''shutdown'', DbDisconnect,
      Exit 0]"
  by (simp add: runWorker_def startup_catch_def do_effect_def)
    (simp add: run_def cfg10_def runWorker_def startup_catch_def worker_init_def shutdown_def Let_def
      parseInt_ten or_zero_def arm_forced_exit_def do_effect_def close_listeners_def process_exit_def)

section \<open>The plaintext listener\<close>

lemma nat_digits_small: "n < 10 \<Longrightarrow> nat_digits n = [digit_char n]"
  by (subst nat_digits.simps) simp

lemma nat_digits_big: "\<not> n < 10 \<Longrightarrow> nat_digits n = nat_digits (n div 10) @ [digit_char (n mod 10)]"
  by (subst nat_digits.simps) simp

text \<open>
  C6, evaluated where the code departs from it. A request for \<open>/anything\<close> with host
  \<open>example.com\<close> is redirected with status 301. With the secure port configured as the
  number 443 the \<open>Location\<close> header carries the suffix \<open>:443\<close>; with the string \<open>'443'\<close> it
  carries no port, and with \<open>'8443'\<close> it carries \<open>:8443\<close>.
\<close>

theorem redirect_keeps_numeric_443:
  "http_request lc_tls readFile \<lparr>url = ''/anything'', host = JStr ''example.com''\<rparr> =
     Inr \<lparr>status = 301, headers = [(''Location'', JStr ''https://example.com:443/anything'')], body = []\<rparr>
   \<and> http_request (lc_tls\<lparr>port := JStr ''443''\<rparr>) readFile \<lparr>url = ''/anything'', host = JStr ''example.com''\<rparr> =
     Inr \<lparr>status = 301, headers = [(''Location'', JStr ''https://example.com/anything'')], body = []\<rparr>
   \<and> http_request (lc_tls\<lparr>port := JStr ''8443''\<rparr>) readFile \<lparr>url = ''/anything'', host = JStr ''example.com''\<rparr> =
     Inr \<lparr>status = 301, headers = [(''Location'', JStr ''https://example.com:8443/anything'')], body = []\<rparr>"
  by (simp add: http_request_def lc_tls_def acme_prefix_def redirect_def location_def strict_eq_def
      nat_digits_small nat_digits_big digit_char_def)

lemma join_traversal:
  "path_join ''/var/www'' ''/.well-known/acme-challenge/../../../../etc/passwd'' = ''/etc/passwd''"
  by (simp add: path_join_def path_normalize_def Let_def)

lemma join_token:
  "path_join ''/var/www'' ''/.well-known/acme-challenge/token123'' = ''/var/www/.well-known/acme-challenge/token123''"
  by (simp add: path_join_def path_normalize_def Let_def)

lemma join_missing:
  "path_join ''/var/www'' ''/.well-known/acme-challenge/missing'' = ''/var/www/.well-known/acme-challenge/missing''"
  by (simp add: path_join_def path_normalize_def Let_def)

text \<open>
  C7, evaluated where the code departs from it. With the webroot \<open>/var/www\<close> a request
  for the challenge file \<open>token123\<close> is answered with status 200, the bytes of the file
  and their number as \<open>Content-Length\<close>, and a request for a missing token with status 404
  and the plain-text body \<open>Not Found\<close>. But a URL under the challenge prefix that climbs
  with \<open>..\<close> is joined to \<open>/etc/passwd\<close>, which is not under the webroot, and that file is
  served with status 200. And with \<open>http:timeout\<close> configured as the string \<open>'5000'\<close>,
  \<open>req.setTimeout\<close> throws and the request for \<open>token123\<close> gets no response at all.
\<close>

theorem acme_serves_outside_webroot:
  "http_request lc_tls one_token
       \<lparr>url = ''/.well-known/acme-challenge/token123'', host = JStr ''example.com''\<rparr> =
     Inr \<lparr>status = 200,
          headers = [(''Content-Length'', JNum 14), (''Content-Type'', JStr ''text/plain'')],
          body = ''token123.thumb''\<rparr>
   \<and> http_request lc_tls one_token
       \<lparr>url = ''/.well-known/acme-challenge/missing'', host = JStr ''example.com''\<rparr> =
     Inr \<lparr>status = 404, headers = [(''Content-Type'', JStr ''text/plain'')], body = ''Not Found''\<rparr>
   \<and> path_join ''/var/www'' ''/.well-known/acme-challenge/../../../../etc/passwd'' = ''/etc/passwd''
   \<and> \<not> inside ''/var/www'' ''/etc/passwd''
   \<and> http_request lc_tls one_token
       \<lparr>url = ''/.well-known/acme-challenge/../../../../etc/passwd'', host = JStr ''example.com''\<rparr> =
     Inr \<lparr>status = 200,
          headers = [(''Content-Length'', JNum 10), (''Content-Type'', JStr ''text/plain'')],
          body = ''root:x:0:0''\<rparr>
   \<and> http_request (lc_tls\<lparr>http_timeout := JStr ''5000''\<rparr>) one_token
       \<lparr>url = ''/.well-known/acme-challenge/token123'', host = JStr ''example.com''\<rparr> =
     Inl InvalidArgType"
  by (simp add: http_request_def lc_tls_def acme_prefix_def join_traversal join_token join_missing
      one_token_def found_def not_found_def check_msecs_def inside_def)

section \<open>Credentials that cannot be read\<close>





end
